theory Spec2Isabelle
  imports Complex_Main "HOL-Library.AList"
begin

section \<open>Python values used by the integration\<close>

text \<open>
  Exceptions are values. \<open>UpdateFailed\<close> carries its cause: \<open>None\<close> when it is raised
  bare (coordinator.py line 157), \<open>Some err\<close> when it is raised \<open>from err\<close> (line 102).
  \<open>ClientError\<close> stands for whatever the HTTP layer raises (connection failure,
  \<open>raise_for_status\<close> on a non-2xx response, undecodable body).
\<close>

datatype error =
    ValueError
  | OverflowError
  | TypeError
  | KeyError
  | ClientError
  | UpdateFailed "error option"

subsection \<open>Strings\<close>

text \<open>
  A \<open>string\<close> is a list of characters; a character stands for the code point of the
  same number, so the model covers the code points below 256. \<open>isspace\<close> lists the
  code points below 256 that Python's \<open>str.isspace\<close> accepts.
\<close>

definition isspace :: "char \<Rightarrow> bool" where
  "isspace c = (of_char c \<in> set [9, 10, 11, 12, 13, 28, 29, 30, 31, 32, 133, 160 :: nat])"

definition strip :: "string \<Rightarrow> string" where
  "strip s = rev (dropWhile isspace (rev (dropWhile isspace s)))"

text \<open>\<open>s.split(sep)\<close> for a one-character separator: never an empty list.\<close>

fun split :: "char \<Rightarrow> string \<Rightarrow> string list" where
  "split sep [] = [[]]"
| "split sep (c # cs) =
     (if c = sep then [] # split sep cs
      else (case split sep cs of
              [] \<Rightarrow> [[c]]
            | p # ps \<Rightarrow> (c # p) # ps))"

text \<open>\<open>xs[0]\<close> on the result of a split, which always has a first element.\<close>

definition first :: "string list \<Rightarrow> string" where
  "first parts = (case parts of [] \<Rightarrow> [] | p # _ \<Rightarrow> p)"

definition lower_char :: "char \<Rightarrow> char" where
  "lower_char c =
     (let n = (of_char c :: nat)
      in if (65 \<le> n \<and> n \<le> 90) \<or> (192 \<le> n \<and> n \<le> 222 \<and> n \<noteq> 215)
         then char_of (n + 32) else c)"

definition lower :: "string \<Rightarrow> string" where
  "lower s = map lower_char s"

subsection \<open>\<open>int(str)\<close>\<close>

text \<open>
  \<open>int(s)\<close> in base 10: surrounding whitespace is stripped, one sign is allowed, then
  decimal digits, where a single underscore may stand between two digits. Anything else
  raises \<open>ValueError\<close>. (The interpreter's limit on the number of digits is not
  modelled.)
\<close>

definition digit_val :: "char \<Rightarrow> nat option" where
  "digit_val c =
     (let n = (of_char c :: nat) in if 48 \<le> n \<and> n \<le> 57 then Some (n - 48) else None)"

fun parse_digits :: "nat \<Rightarrow> string \<Rightarrow> nat option" where
  "parse_digits acc [] = Some acc"
| "parse_digits acc [c] =
     (case digit_val c of None \<Rightarrow> None | Some v \<Rightarrow> Some (acc * 10 + v))"
| "parse_digits acc (c # d # ds) =
     (if c = CHR ''_'' then
        (case digit_val d of None \<Rightarrow> None | Some v \<Rightarrow> parse_digits (acc * 10 + v) ds)
      else
        (case digit_val c of None \<Rightarrow> None | Some v \<Rightarrow> parse_digits (acc * 10 + v) (d # ds)))"

definition py_int :: "string \<Rightarrow> error + int" where
  "py_int s =
     (let t = strip s;
          neg = (case t of [] \<Rightarrow> False | c # _ \<Rightarrow> c = CHR ''-'');
          body = (case t of [] \<Rightarrow> []
                  | c # cs \<Rightarrow> if c = CHR ''-'' \<or> c = CHR ''+'' then cs else t)
      in case body of
           [] \<Rightarrow> Inl ValueError
         | d # ds \<Rightarrow>
             (case digit_val d of
                None \<Rightarrow> Inl ValueError
              | Some v \<Rightarrow>
                  (case parse_digits v ds of
                     None \<Rightarrow> Inl ValueError
                   | Some n \<Rightarrow> Inr (if neg then - int n else int n))))"

text \<open>
  \<open>f"{n:02d}"\<close>: decimal, zero-padded to width two; the sign of a negative number
  counts towards the width.
\<close>

fun digits :: "nat \<Rightarrow> string" where
  "digits n = (if n < 10 then [char_of (48 + n)] else digits (n div 10) @ [char_of (48 + n mod 10)])"

declare digits.simps [simp del]

definition format_02d :: "int \<Rightarrow> string" where
  "format_02d n =
     (if n < 0 then CHR ''-'' # digits (nat (- n))
      else if n < 10 then CHR ''0'' # digits (nat n)
      else digits (nat n))"

subsection \<open>\<open>datetime\<close>\<close>

text \<open>
  A \<open>datetime\<close>: the date as its proleptic Gregorian ordinal (\<open>toordinal()\<close>, 1 for
  0001-01-01 up to 3652059 for 9999-12-31), the time of day, and \<open>tzinfo\<close>, \<open>None\<close>
  for a naive value. A time zone is modelled as a fixed UTC offset in minutes.
\<close>

record datetime =
  ordinal :: int
  hour :: int
  minute :: int
  second :: int
  microsecond :: int
  tzinfo :: "int option"

text \<open>\<open>d.replace(hour=h, minute=m, second=0, microsecond=0)\<close> checks the new fields.\<close>

definition replace_time :: "datetime \<Rightarrow> int \<Rightarrow> int \<Rightarrow> error + datetime" where
  "replace_time d h m =
     (if 0 \<le> h \<and> h < 24 \<and> 0 \<le> m \<and> m < 60
      then Inr (d\<lparr>hour := h, minute := m, second := 0, microsecond := 0\<rparr>)
      else Inl ValueError)"

text \<open>\<open>d.replace(tzinfo=tz)\<close> keeps the wall-clock fields.\<close>

definition replace_tzinfo :: "datetime \<Rightarrow> int option \<Rightarrow> datetime" where
  "replace_tzinfo d tz = d\<lparr>tzinfo := tz\<rparr>"

text \<open>
  \<open>d - timedelta(minutes=off)\<close>: \<open>OverflowError\<close> when the date leaves the supported
  range (an offset too large for a \<open>timedelta\<close> leaves it as well).
\<close>

definition minus_minutes :: "datetime \<Rightarrow> int \<Rightarrow> error + datetime" where
  "minus_minutes d off =
     (let total = hour d * 60 + minute d - off;
          ord' = ordinal d + total div 1440
      in if ord' < 1 \<or> 3652059 < ord' then Inl OverflowError
         else Inr (d\<lparr>ordinal := ord', hour := (total mod 1440) div 60, minute := total mod 60\<rparr>))"

text \<open>Microseconds since the start of ordinal day 0, on the wall clock and in UTC.\<close>

definition wall_us :: "datetime \<Rightarrow> int" where
  "wall_us d =
     (((ordinal d * 24 + hour d) * 60 + minute d) * 60 + second d) * 1000000 + microsecond d"

definition utc_us :: "datetime \<Rightarrow> int" where
  "utc_us d = wall_us d - (case tzinfo d of None \<Rightarrow> 0 | Some off \<Rightarrow> off * 60000000)"

text \<open>
  \<open>a - b\<close> in microseconds and \<open>a > b\<close>. Two naive values, or two values with the same
  \<open>tzinfo\<close>, are compared on the wall clock; two aware values with different
  \<open>tzinfo\<close> in UTC; a naive and an aware value raise \<open>TypeError\<close>.
\<close>

definition dt_sub :: "datetime \<Rightarrow> datetime \<Rightarrow> error + int" where
  "dt_sub a b =
     (case (tzinfo a, tzinfo b) of
        (None, None) \<Rightarrow> Inr (wall_us a - wall_us b)
      | (Some x, Some y) \<Rightarrow>
          if x = y then Inr (wall_us a - wall_us b) else Inr (utc_us a - utc_us b)
      | _ \<Rightarrow> Inl TypeError)"

definition dt_gt :: "datetime \<Rightarrow> datetime \<Rightarrow> error + bool" where
  "dt_gt a b =
     (case (tzinfo a, tzinfo b) of
        (None, None) \<Rightarrow> Inr (wall_us a > wall_us b)
      | (Some x, Some y) \<Rightarrow>
          if x = y then Inr (wall_us a > wall_us b) else Inr (utc_us a > utc_us b)
      | _ \<Rightarrow> Inl TypeError)"

section \<open>const.py\<close>

definition SOURCE_QATAR_MOI :: string where
  "SOURCE_QATAR_MOI = ''qatar_moi''"

definition PRAYER_ORDER :: "string list" where
  "PRAYER_ORDER = [''Fajr'', ''Sunrise'', ''Dhuhr'', ''Asr'', ''Maghrib'', ''Isha'']"

definition NAME_MAP :: "(string \<times> string) list" where
  "NAME_MAP =
     [(''fajer'', ''Fajr''), (''fajr'', ''Fajr''), (''sunrise'', ''Sunrise''),
      (''dhuhr'', ''Dhuhr''), (''zuhr'', ''Dhuhr''), (''asr'', ''Asr''),
      (''maghrib'', ''Maghrib''), (''isha'', ''Isha'')]"

definition DEFAULT_SUHOOR_OFFSET :: int where
  "DEFAULT_SUHOOR_OFFSET = 60"

section \<open>coordinator.py\<close>

text \<open>
  The configuration dictionary, restricted to the keys the coordinator reads; \<open>None\<close>
  is an absent key.
\<close>

record config =
  prayer_source :: "string option"
  prayer_fajr :: "bool option"
  prayer_sunrise :: "bool option"
  prayer_dhuhr :: "bool option"
  prayer_asr :: "bool option"
  prayer_maghrib :: "bool option"
  prayer_isha :: "bool option"
  suhoor_enabled :: "bool option"
  suhoor_ramadan_only :: "bool option"
  suhoor_offset_minutes :: "int option"

text \<open>\<open>d.get(key, default)\<close> on an optional field.\<close>

definition get :: "'a option \<Rightarrow> 'a \<Rightarrow> 'a" where
  "get v dflt = (case v of None \<Rightarrow> dflt | Some x \<Rightarrow> x)"

text \<open>One prayer dictionary of the \<open>prayers\<close> list.\<close>

record prayer =
  name :: string
  time :: datetime
  time_str :: string
  enabled :: bool

text \<open>\<open>xs.index(x)\<close>; the callers test \<open>x in xs\<close> first.\<close>

fun index :: "'a list \<Rightarrow> 'a \<Rightarrow> nat" where
  "index [] x = 0"
| "index (y # ys) x = (if x = y then 0 else Suc (index ys x))"

definition enabled_map :: "config \<Rightarrow> (string \<times> bool) list" where
  "enabled_map config =
     [(''Fajr'', get (prayer_fajr config) True),
      (''Sunrise'', get (prayer_sunrise config) False),
      (''Dhuhr'', get (prayer_dhuhr config) True),
      (''Asr'', get (prayer_asr config) True),
      (''Maghrib'', get (prayer_maghrib config) True),
      (''Isha'', get (prayer_isha config) True)]"

text \<open>The sort key of lines 219-221.\<close>

definition order_key :: "string \<times> string \<Rightarrow> nat" where
  "order_key x = (if fst x \<in> set PRAYER_ORDER then index PRAYER_ORDER (fst x) else 99)"

text \<open>
  Lines 231-237: the cleaned time string split at the colons, \<open>None\<close> where the loop
  continues because there are fewer than two parts, else the two integers.
\<close>

definition parse_hm :: "string \<Rightarrow> error + (int \<times> int) option" where
  "parse_hm s =
     (let time_clean = strip (first (split (CHR ''('') (first (split (CHR '' '') (strip s)))));
          parts = split (CHR '':'') time_clean
      in if length parts < 2 then Inr None
         else (case py_int (parts ! 0) of
                 Inl e \<Rightarrow> Inl e
               | Inr h \<Rightarrow>
                   (case py_int (parts ! 1) of
                      Inl e \<Rightarrow> Inl e
                    | Inr m \<Rightarrow> Inr (Some (h, m)))))"

text \<open>Lines 239-241: afternoon prayers of a 12-hour source.\<close>

definition adjust_hour :: "string \<Rightarrow> int \<Rightarrow> int" where
  "adjust_hour n h = (if n \<in> set [''Asr'', ''Maghrib'', ''Isha''] \<and> h < 10 then h + 12 else h)"

text \<open>
  One iteration of the loop of lines 226-257: \<open>Inr None\<close> where it continues without
  appending, \<open>Inr (Some p)\<close> where it appends \<open>p\<close>, \<open>Inl e\<close> where it raises.
\<close>

definition entry_of :: "config \<Rightarrow> datetime \<Rightarrow> string \<times> string \<Rightarrow> error + prayer option" where
  "entry_of config now item =
     (case item of (n, s) \<Rightarrow>
        if n \<notin> set PRAYER_ORDER then Inr None
        else (case parse_hm s of
                Inl e \<Rightarrow> Inl e
              | Inr None \<Rightarrow> Inr None
              | Inr (Some (h0, m)) \<Rightarrow>
                  (let h = adjust_hour n h0
                   in case replace_time now h m of
                        Inl e \<Rightarrow> Inl e
                      | Inr prayer_time \<Rightarrow>
                          Inr (Some \<lparr>name = n, time = prayer_time,
                                     time_str = format_02d h @ '':'' @ format_02d m,
                                     enabled = get (map_of (enabled_map config) n) False\<rparr>))))"

text \<open>The loop, threading \<open>prayers\<close> and \<open>fajr_time\<close>.\<close>

fun normalize_loop ::
  "config \<Rightarrow> datetime \<Rightarrow> (string \<times> string) list \<Rightarrow> prayer list \<times> datetime option
     \<Rightarrow> error + (prayer list \<times> datetime option)" where
  "normalize_loop config now [] acc = Inr acc"
| "normalize_loop config now (item # entries) (prayers, fajr_time) =
     (case entry_of config now item of
        Inl e \<Rightarrow> Inl e
      | Inr None \<Rightarrow> normalize_loop config now entries (prayers, fajr_time)
      | Inr (Some p) \<Rightarrow>
          normalize_loop config now entries
            (prayers @ [p], if name p = ''Fajr'' then Some (time p) else fajr_time))"

text \<open>\<open>next((i for i, p in enumerate(prayers) if p["name"] == "Fajr"), 0)\<close>.\<close>

fun fajr_idx :: "prayer list \<Rightarrow> nat option" where
  "fajr_idx [] = None"
| "fajr_idx (p # ps) =
     (if name p = ''Fajr'' then Some 0 else map_option Suc (fajr_idx ps))"

text \<open>\<open>xs.insert(i, x)\<close> for \<open>i \<ge> 0\<close>.\<close>

definition insert_at :: "nat \<Rightarrow> 'a \<Rightarrow> 'a list \<Rightarrow> 'a list" where
  "insert_at i x xs = take i xs @ x # drop i xs"

text \<open>
  \<open>_normalize_times(raw, is_ramadan)\<close>. The dictionary \<open>raw\<close> is the list of its items
  in insertion order; \<open>now\<close> is the value of \<open>datetime.now()\<close> at line 203.
\<close>

definition normalize_times ::
  "config \<Rightarrow> datetime \<Rightarrow> (string \<times> string) list \<Rightarrow> bool \<Rightarrow> error + prayer list" where
  "normalize_times config now raw is_ramadan =
     (let entries = sort_key order_key raw
      in case normalize_loop config now entries ([], None) of
           Inl e \<Rightarrow> Inl e
         | Inr (prayers, fajr_time) \<Rightarrow>
             (case fajr_time of
                None \<Rightarrow> Inr prayers
              | Some fajr \<Rightarrow>
                  if get (suhoor_enabled config) False
                     \<and> (\<not> get (suhoor_ramadan_only config) True \<or> is_ramadan)
                  then
                    (let offset = get (suhoor_offset_minutes config) DEFAULT_SUHOOR_OFFSET
                     in case minus_minutes fajr offset of
                          Inl e \<Rightarrow> Inl e
                        | Inr suhoor_time \<Rightarrow>
                            Inr (insert_at (get (fajr_idx prayers) 0)
                                   \<lparr>name = ''Suhoor'', time = suhoor_time,
                                    time_str = format_02d (hour suhoor_time) @ '':''
                                               @ format_02d (minute suhoor_time),
                                    enabled = True\<rparr>
                                   prayers))
                  else Inr prayers))"

text \<open>\<open>PrayerData\<close> and its constructor (lines 32-50).\<close>

record PrayerData =
  prayers :: "prayer list"
  date :: string
  played_today :: "string set"
  hijri_month :: "int option"
  hijri_day :: "int option"
  hijri_month_name :: "string option"
  is_ramadan :: bool

text \<open>\<open>(hijri_month == 9) if hijri_month else False\<close>: \<open>None\<close> and 0 are falsy.\<close>

definition ramadan_of :: "int option \<Rightarrow> bool" where
  "ramadan_of hm = (case hm of None \<Rightarrow> False | Some m \<Rightarrow> if m \<noteq> 0 then m = 9 else False)"

definition PrayerData_init ::
  "prayer list \<Rightarrow> string \<Rightarrow> int option \<Rightarrow> int option \<Rightarrow> string option \<Rightarrow> PrayerData" where
  "PrayerData_init ps d hm hday hmn =
     \<lparr>prayers = ps, date = d, played_today = {}, hijri_month = hm, hijri_day = hday,
      hijri_month_name = hmn, is_ramadan = ramadan_of hm\<rparr>"

text \<open>
  The coordinator object: its configuration, the snapshot \<open>self.data\<close> that the update
  framework stores after a successful refresh (\<open>None\<close> before the first one), and
  \<open>_last_date\<close>.
\<close>

record coordinator =
  config :: config
  data :: "PrayerData option"
  last_date :: "string option"

text \<open>
  What one refresh reads from outside the program:
  \<^item> \<open>qatar_response\<close>: the outcome of the GET of lines 132-137 and of the scans of lines
    140-148, either an exception or the stripped non-empty header texts and the
    stripped cell texts;
  \<^item> \<open>hijri_today\<close>: the three values assigned in lines 88-95, each \<open>None\<close> where the
    converter raised before assigning it;
  \<^item> \<open>aladhan_response\<close>: the outcome of \<open>_fetch_aladhan\<close>, either an exception or the six
    timings and the entries \<open>month\<close>, \<open>day\<close>, \<open>month_name\<close> of \<open>hijri_info\<close>;
  \<^item> \<open>today\<close>: \<open>datetime.now().strftime("%Y-%m-%d")\<close> at line 104;
  \<^item> \<open>clock\<close>: \<open>datetime.now()\<close> at line 203.
\<close>

record world =
  qatar_response :: "error + (string list \<times> string list)"
  hijri_today :: "int option \<times> int option \<times> string option"
  aladhan_response :: "error + ((string \<times> string) list \<times> (int option \<times> int option \<times> string option))"
  today :: string
  clock :: datetime

text \<open>
  Lines 150-159 of \<open>_fetch_qatar_moi\<close>: headers paired with cells by position, the header
  renamed through \<open>NAME_MAP\<close>; a later header of the same name overwrites the value in
  place. No pair at all raises \<open>UpdateFailed\<close>. \<open>pair_header\<close> is the body of the loop,
  \<open>acc\<close> the dictionary \<open>times\<close> so far.
\<close>

definition pair_header ::
  "string list \<Rightarrow> nat \<times> string \<Rightarrow> (string \<times> string) list \<Rightarrow> (string \<times> string) list" where
  "pair_header cells item acc =
     (case item of (i, header) \<Rightarrow>
        if i < length cells
        then AList.update (get (map_of NAME_MAP (lower header)) header) (cells ! i) acc
        else acc)"

definition fetch_qatar_moi :: "error + (string list \<times> string list) \<Rightarrow> error + (string \<times> string) list" where
  "fetch_qatar_moi response =
     (case response of
        Inl e \<Rightarrow> Inl e
      | Inr (headers, cells) \<Rightarrow>
          (let times = fold (pair_header cells) (enumerate 0 headers) []
           in if times = [] then Inl (UpdateFailed None) else Inr times))"

text \<open>
  The body of the \<open>try\<close> statement of lines 83-100: the raw times and the three Hijri
  values, or the exception that reaches the \<open>except\<close> clause of line 101.
\<close>

definition fetch ::
  "coordinator \<Rightarrow> world
     \<Rightarrow> error + ((string \<times> string) list \<times> (int option \<times> int option \<times> string option))" where
  "fetch self w =
     (if get (prayer_source (config self)) SOURCE_QATAR_MOI = SOURCE_QATAR_MOI then
        (case fetch_qatar_moi (qatar_response w) of
           Inl err \<Rightarrow> Inl err
         | Inr raw \<Rightarrow> Inr (raw, hijri_today w))
      else aladhan_response w)"

text \<open>
  \<open>_async_update_data\<close>: the value returned or the exception raised, and the coordinator
  object afterwards. The method itself does not assign \<open>self.data\<close>; normalization
  (line 106) runs outside the \<open>try\<close> statement.
\<close>

definition async_update_data :: "coordinator \<Rightarrow> world \<Rightarrow> (error + PrayerData) \<times> coordinator" where
  "async_update_data self w =
     (case fetch self w of
        Inl err \<Rightarrow> (Inl (UpdateFailed (Some err)), self)
      | Inr (raw, (hm, hday, hmn)) \<Rightarrow>
          (case normalize_times (config self) (clock w) raw (ramadan_of hm) of
             Inl e \<Rightarrow> (Inl e, self)
           | Inr ps \<Rightarrow>
               (let fresh = PrayerData_init ps (today w) hm hday hmn;
                    result =
                      (case data self of
                         None \<Rightarrow> fresh
                       | Some old \<Rightarrow>
                           if date old = today w
                           then fresh\<lparr>played_today := played_today old\<rparr>
                           else fresh)
                in (Inr result, self\<lparr>last_date := Some (today w)\<rparr>))))"

section \<open>sensor.py\<close>

text \<open>
  An attribute dictionary is the list of its items; \<open>AIsoformat t\<close> stands for the string
  \<open>t.isoformat()\<close>.
\<close>

datatype attr = ABool bool | AInt int | AStr string | ANone | AIsoformat datetime

subsection \<open>\<open>PrayerTimeSensor\<close>\<close>

definition PrayerTimeSensor_get_prayer :: "PrayerData option \<Rightarrow> string \<Rightarrow> prayer option" where
  "PrayerTimeSensor_get_prayer d prayer_name =
     (case d of
        None \<Rightarrow> None
      | Some pd \<Rightarrow> find (\<lambda>p. name p = prayer_name) (prayers pd))"

definition PrayerTimeSensor_native_value :: "PrayerData option \<Rightarrow> string \<Rightarrow> string option" where
  "PrayerTimeSensor_native_value d prayer_name =
     (case PrayerTimeSensor_get_prayer d prayer_name of
        Some p \<Rightarrow> Some (time_str p)
      | None \<Rightarrow> None)"

definition PrayerTimeSensor_extra_state_attributes ::
  "PrayerData option \<Rightarrow> string \<Rightarrow> (string \<times> attr) list" where
  "PrayerTimeSensor_extra_state_attributes d prayer_name =
     (case PrayerTimeSensor_get_prayer d prayer_name of
        None \<Rightarrow> []
      | Some p \<Rightarrow>
          (let played = (case d of None \<Rightarrow> False | Some pd \<Rightarrow> prayer_name \<in> played_today pd)
           in [(''enabled'', ABool (enabled p)), (''played'', ABool played),
               (''datetime'', AIsoformat (time p)), (''prayer_name'', AStr prayer_name)]))"

subsection \<open>Next prayer and countdown\<close>

text \<open>
  \<open>if prayer_time.tzinfo is None: prayer_time = prayer_time.replace(tzinfo=now.tzinfo)\<close>
\<close>

definition localize :: "datetime \<Rightarrow> datetime \<Rightarrow> datetime" where
  "localize now prayer_time =
     (if tzinfo prayer_time = None then replace_tzinfo prayer_time (tzinfo now) else prayer_time)"

text \<open>The loop of \<open>NextPrayerSensor._get_next_prayer\<close> (lines 221-230).\<close>

fun next_enabled :: "datetime \<Rightarrow> prayer list \<Rightarrow> error + prayer option" where
  "next_enabled now [] = Inr None"
| "next_enabled now (p # ps) =
     (if \<not> enabled p then next_enabled now ps
      else (case dt_gt (localize now (time p)) now of
              Inl e \<Rightarrow> Inl e
            | Inr True \<Rightarrow> Inr (Some p)
            | Inr False \<Rightarrow> next_enabled now ps))"

definition NextPrayerSensor_get_next_prayer :: "PrayerData option \<Rightarrow> datetime \<Rightarrow> error + prayer option" where
  "NextPrayerSensor_get_next_prayer d now =
     (case d of None \<Rightarrow> Inr None | Some pd \<Rightarrow> next_enabled now (prayers pd))"

text \<open>The loop of \<open>AzanCountdownSensor._get_next_prayer\<close> (lines 313-319).\<close>

fun next_any :: "datetime \<Rightarrow> prayer list \<Rightarrow> error + prayer option" where
  "next_any now [] = Inr None"
| "next_any now (p # ps) =
     (case dt_gt (localize now (time p)) now of
        Inl e \<Rightarrow> Inl e
      | Inr True \<Rightarrow> Inr (Some p)
      | Inr False \<Rightarrow> next_any now ps)"

definition AzanCountdownSensor_get_next_prayer :: "PrayerData option \<Rightarrow> datetime \<Rightarrow> error + prayer option" where
  "AzanCountdownSensor_get_next_prayer d now =
     (case d of None \<Rightarrow> Inr None | Some pd \<Rightarrow> next_any now (prayers pd))"

text \<open>
  Floating point. \<open>total_seconds()\<close> and the division by 60 are float divisions: the
  exact quotient rounded to a double. The rounding is the parameter \<open>fl\<close> of the model;
  whatever a theorem needs of it is a hypothesis of that theorem. \<open>int(x)\<close> truncates
  towards zero.
\<close>

definition total_seconds :: "(real \<Rightarrow> real) \<Rightarrow> int \<Rightarrow> real" where
  "total_seconds fl us = fl (real_of_int us / 1000000)"

definition int_of_float :: "real \<Rightarrow> int" where
  "int_of_float x = (if 0 \<le> x then \<lfloor>x\<rfloor> else \<lceil>x\<rceil>)"

text \<open>
  Lines 278-282 (and 202-206): \<open>max(0, int(diff.total_seconds() / 60))\<close>, with \<open>now\<close>
  read again after the prayer was chosen.
\<close>

definition minutes_until :: "(real \<Rightarrow> real) \<Rightarrow> prayer \<Rightarrow> datetime \<Rightarrow> error + int" where
  "minutes_until fl p now =
     (case dt_sub (localize now (time p)) now of
        Inl e \<Rightarrow> Inl e
      | Inr diff \<Rightarrow> Inr (max 0 (int_of_float (fl (total_seconds fl diff / 60)))))"

text \<open>Lines 293-303: the hours, minutes and seconds of the countdown.\<close>

definition countdown_breakdown :: "(real \<Rightarrow> real) \<Rightarrow> prayer \<Rightarrow> datetime \<Rightarrow> error + (int \<times> int \<times> int)" where
  "countdown_breakdown fl p now =
     (case dt_sub (localize now (time p)) now of
        Inl e \<Rightarrow> Inl e
      | Inr diff \<Rightarrow>
          (let total = max 0 (int_of_float (total_seconds fl diff))
           in Inr (total div 3600, (total mod 3600) div 60, total mod 60)))"

definition NextPrayerSensor_native_value :: "PrayerData option \<Rightarrow> datetime \<Rightarrow> error + string option" where
  "NextPrayerSensor_native_value d now =
     (case NextPrayerSensor_get_next_prayer d now of
        Inl e \<Rightarrow> Inl e
      | Inr None \<Rightarrow> Inr None
      | Inr (Some p) \<Rightarrow> Inr (Some (name p)))"

definition NextPrayerSensor_extra_state_attributes ::
  "(real \<Rightarrow> real) \<Rightarrow> PrayerData option \<Rightarrow> datetime \<Rightarrow> datetime \<Rightarrow> error + (string \<times> attr) list" where
  "NextPrayerSensor_extra_state_attributes fl d now1 now2 =
     (case NextPrayerSensor_get_next_prayer d now1 of
        Inl e \<Rightarrow> Inl e
      | Inr None \<Rightarrow> Inr []
      | Inr (Some p) \<Rightarrow>
          (case minutes_until fl p now2 of
             Inl e \<Rightarrow> Inl e
           | Inr m \<Rightarrow>
               Inr [(''time'', AStr (time_str p)), (''countdown_minutes'', AInt m),
                    (''datetime'', AIsoformat (time p))]))"

definition AzanCountdownSensor_native_value ::
  "(real \<Rightarrow> real) \<Rightarrow> PrayerData option \<Rightarrow> datetime \<Rightarrow> datetime \<Rightarrow> error + int option" where
  "AzanCountdownSensor_native_value fl d now1 now2 =
     (case AzanCountdownSensor_get_next_prayer d now1 of
        Inl e \<Rightarrow> Inl e
      | Inr None \<Rightarrow> Inr None
      | Inr (Some p) \<Rightarrow>
          (case minutes_until fl p now2 of
             Inl e \<Rightarrow> Inl e
           | Inr m \<Rightarrow> Inr (Some m)))"

definition AzanCountdownSensor_extra_state_attributes ::
  "(real \<Rightarrow> real) \<Rightarrow> PrayerData option \<Rightarrow> datetime \<Rightarrow> datetime \<Rightarrow> error + (string \<times> attr) list" where
  "AzanCountdownSensor_extra_state_attributes fl d now1 now2 =
     (case AzanCountdownSensor_get_next_prayer d now1 of
        Inl e \<Rightarrow> Inl e
      | Inr None \<Rightarrow>
          Inr [(''prayer_name'', ANone), (''time'', ANone), (''hours'', AInt 0),
               (''minutes'', AInt 0), (''seconds'', AInt 0)]
      | Inr (Some p) \<Rightarrow>
          (case countdown_breakdown fl p now2 of
             Inl e \<Rightarrow> Inl e
           | Inr (h, m, s) \<Rightarrow>
               Inr [(''prayer_name'', AStr (name p)), (''time'', AStr (time_str p)),
                    (''hours'', AInt h), (''minutes'', AInt m), (''seconds'', AInt s),
                    (''datetime'', AIsoformat (time p))]))"

subsection \<open>\<open>RamadanSensor\<close> and \<open>AzanStatusSensor\<close>\<close>

definition RamadanSensor_native_value :: "PrayerData option \<Rightarrow> string" where
  "RamadanSensor_native_value d =
     (case d of
        None \<Rightarrow> ''Unknown''
      | Some pd \<Rightarrow> if is_ramadan pd then ''Yes'' else ''No'')"

text \<open>
  The entry's store in \<open>hass.data\<close>, restricted to the two flags the status sensor
  reads; \<open>None\<close> is an absent key. The argument of \<open>AzanStatusSensor_native_value\<close> is
  \<open>None\<close> where \<open>hass.data\<close> has no store for the entry, which reads as the empty
  dictionary.
\<close>

record store =
  is_downloading :: "bool option"
  is_playing :: "bool option"

definition AzanStatusSensor_native_value :: "store option \<Rightarrow> string" where
  "AzanStatusSensor_native_value st =
     (let s = get st \<lparr>is_downloading = None, is_playing = None\<rparr>
      in if get (is_downloading s) False then ''downloading''
         else if get (is_playing s) False then ''playing''
         else ''idle'')"

section \<open>Definitions for the proofs\<close>

text \<open>The entries the loop appends for a list of raw items.\<close>

definition produced :: "config \<Rightarrow> datetime \<Rightarrow> (string \<times> string) list \<Rightarrow> prayer list" where
  "produced cfg now es =
     List.map_filter (\<lambda>e. case entry_of cfg now e of Inr (Some p) \<Rightarrow> Some p | _ \<Rightarrow> None) es"

text \<open>\<open>fajr_time\<close> after the loop: the time of the last Fajr entry appended, if any.\<close>

definition last_fajr :: "datetime option \<Rightarrow> prayer list \<Rightarrow> datetime option" where
  "last_fajr ft ps = fold (\<lambda>p acc. if name p = ''Fajr'' then Some (time p) else acc) ps ft"

subsection \<open>Example inputs\<close>

text \<open>
  1 March 2026 (ordinal 739676), in Ramadan; the AlAdhan source, Suhoor enabled in
  Ramadan only, 60 minutes before Fajr.
\<close>

definition example_now :: datetime where
  "example_now = \<lparr>ordinal = 739676, hour = 9, minute = 41, second = 17, microsecond = 250000, tzinfo = None\<rparr>"

definition example_config :: config where
  "example_config =
     \<lparr>prayer_source = Some ''aladhan'', prayer_fajr = Some True, prayer_sunrise = Some False,
      prayer_dhuhr = Some True, prayer_asr = Some True, prayer_maghrib = Some True,
      prayer_isha = Some True, suhoor_enabled = Some True, suhoor_ramadan_only = Some True,
      suhoor_offset_minutes = Some 60\<rparr>"

definition example_raw :: "(string \<times> string) list" where
  "example_raw = [(''Dhuhr'', ''11:45''), (''Fajr'', ''04:30 (+03)''), (''Asr'', ''3:15'')]"

definition example_time :: "int \<Rightarrow> int \<Rightarrow> datetime" where
  "example_time h m = \<lparr>ordinal = 739676, hour = h, minute = m, second = 0, microsecond = 0, tzinfo = None\<rparr>"

definition example_entries :: "prayer list" where
  "example_entries =
     [\<lparr>name = ''Suhoor'', time = example_time 3 30, time_str = ''03:30'', enabled = True\<rparr>,
      \<lparr>name = ''Fajr'', time = example_time 4 30, time_str = ''04:30'', enabled = True\<rparr>,
      \<lparr>name = ''Dhuhr'', time = example_time 11 45, time_str = ''11:45'', enabled = True\<rparr>,
      \<lparr>name = ''Asr'', time = example_time 15 15, time_str = ''15:15'', enabled = True\<rparr>]"

definition example_snapshot :: "string \<Rightarrow> string set \<Rightarrow> PrayerData" where
  "example_snapshot d played =
     \<lparr>prayers = example_entries, date = d, played_today = played, hijri_month = Some 9,
      hijri_day = Some 12, hijri_month_name = Some ''Ramadan'', is_ramadan = True\<rparr>"

definition example_coordinator :: coordinator where
  "example_coordinator =
     \<lparr>config = example_config, data = Some (example_snapshot ''2026-03-01'' {''Fajr''}),
      last_date = Some ''2026-03-01''\<rparr>"

definition example_world :: "string \<Rightarrow> world" where
  "example_world d =
     \<lparr>qatar_response = Inr ([''Fajer'', ''Sunrise''], []), hijri_today = (None, None, None),
      aladhan_response = Inr (example_raw, (Some 9, Some 12, Some ''Ramadan'')),
      today = d, clock = example_now\<rparr>"

definition example_schedule :: PrayerData where
  "example_schedule =
     \<lparr>prayers =
        [\<lparr>name = ''Fajr'', time = example_time 5 0, time_str = ''05:00'', enabled = False\<rparr>,
         \<lparr>name = ''Dhuhr'', time = example_time 12 0, time_str = ''12:00'', enabled = True\<rparr>,
         \<lparr>name = ''Asr'', time = example_time 15 30, time_str = ''15:30'', enabled = True\<rparr>],
      date = ''2026-03-01'', played_today = {}, hijri_month = None, hijri_day = None,
      hijri_month_name = None, is_ramadan = False\<rparr>"

definition example_instant :: "int \<Rightarrow> int \<Rightarrow> int \<Rightarrow> datetime" where
  "example_instant h m s =
     \<lparr>ordinal = 739676, hour = h, minute = m, second = s, microsecond = 0, tzinfo = Some 180\<rparr>"

section \<open>Lemmas\<close>

lemma produced_Nil: "produced cfg now [] = []"
  by (simp add: produced_def map_filter_simps)

lemma produced_Cons:
  "produced cfg now (e # es) =
     (case entry_of cfg now e of Inr (Some p) \<Rightarrow> p # produced cfg now es | _ \<Rightarrow> produced cfg now es)"
  by (simp add: produced_def map_filter_simps split: sum.splits option.splits)

lemma normalize_loop_Inr:
  "normalize_loop cfg now es (ps, ft) = Inr (ps', ft') \<Longrightarrow>
     ps' = ps @ produced cfg now es \<and> ft' = last_fajr ft (produced cfg now es)
     \<and> (\<forall>e\<in>set es. \<exists>r. entry_of cfg now e = Inr r)"
proof (induction es arbitrary: ps ft)
  case Nil
  then show ?case by (simp add: produced_Nil last_fajr_def)
next
  case (Cons e es)
  show ?case
  proof (cases "entry_of cfg now e")
    case (Inl err)
    with Cons.prems show ?thesis by simp
  next
    case (Inr r)
    show ?thesis
    proof (cases r)
      case None
      with Inr Cons.prems have "normalize_loop cfg now es (ps, ft) = Inr (ps', ft')" by simp
      from Cons.IH [OF this] Inr None show ?thesis by (simp add: produced_Cons)
    next
      case (Some p)
      with Inr Cons.prems
      have "normalize_loop cfg now es (ps @ [p], if name p = ''Fajr'' then Some (time p) else ft) = Inr (ps', ft')"
        by simp
      from Cons.IH [OF this] Inr Some show ?thesis by (simp add: produced_Cons last_fajr_def)
    qed
  qed
qed

lemma normalize_loop_total:
  "\<forall>e\<in>set es. \<exists>r. entry_of cfg now e = Inr r \<Longrightarrow>
     normalize_loop cfg now es (ps, ft) = Inr (ps @ produced cfg now es, last_fajr ft (produced cfg now es))"
proof (induction es arbitrary: ps ft)
  case Nil
  then show ?case by (simp add: produced_Nil last_fajr_def)
next
  case (Cons e es)
  then obtain r where r: "entry_of cfg now e = Inr r" by auto
  from Cons have IH: "\<And>ps ft. normalize_loop cfg now es (ps, ft) = Inr (ps @ produced cfg now es, last_fajr ft (produced cfg now es))"
    by simp
  show ?case using r IH by (cases r) (simp_all add: produced_Cons last_fajr_def)
qed

lemma entry_of_Some:
  assumes "entry_of cfg now e = Inr (Some p)"
  shows "name p = fst e" and "fst e \<in> set PRAYER_ORDER"
    and "\<exists>h m. parse_hm (snd e) = Inr (Some (h, m)) \<and> hour (time p) = adjust_hour (fst e) h
           \<and> minute (time p) = m \<and> 0 \<le> adjust_hour (fst e) h \<and> adjust_hour (fst e) h < 24 \<and> 0 \<le> m \<and> m < 60
           \<and> time_str p = format_02d (adjust_hour (fst e) h) @ '':'' @ format_02d m"
    and "ordinal (time p) = ordinal now" and "tzinfo (time p) = tzinfo now"
    and "second (time p) = 0" and "microsecond (time p) = 0"
    and "enabled p = get (map_of (enabled_map cfg) (fst e)) False"
  using assms
  by (auto simp: entry_of_def replace_time_def Let_def split: prod.splits if_splits sum.splits option.splits)

lemma produced_set:
  "p \<in> set (produced cfg now es) \<Longrightarrow> \<exists>e\<in>set es. entry_of cfg now e = Inr (Some p)"
  by (induction es) (auto simp: produced_Nil produced_Cons split: sum.splits option.splits)

lemma produced_names:
  "map name (produced cfg now es) = map fst (filter (\<lambda>e. \<exists>p. entry_of cfg now e = Inr (Some p)) es)"
  by (induction es) (auto simp: produced_Nil produced_Cons entry_of_Some(1) split: sum.splits option.splits)

lemma index_inj: "x \<in> set xs \<Longrightarrow> y \<in> set xs \<Longrightarrow> index xs x = index xs y \<Longrightarrow> x = y"
  by (induction xs) (auto split: if_splits)

lemma sorted_wrt_filter_strict:
  assumes "sorted (map k xs)" and "distinct (map f xs)"
    and "\<And>a b. P a \<Longrightarrow> P b \<Longrightarrow> k a \<le> k b \<Longrightarrow> f a \<noteq> f b \<Longrightarrow> R a b"
  shows "sorted_wrt R (filter P xs)"
  using assms(1,2)
proof (induction xs)
  case Nil
  then show ?case by simp
next
  case (Cons x xs)
  then have IH: "sorted_wrt R (filter P xs)" by simp
  show ?case
  proof (cases "P x")
    case True
    have "R x y" if "y \<in> set xs" "P y" for y
    proof -
      from Cons.prems that have "k x \<le> k y" "f x \<noteq> f y" by auto
      with True that show ?thesis by (auto intro: assms(3))
    qed
    with True IH show ?thesis by simp
  next
    case False
    with IH show ?thesis by simp
  qed
qed

lemma distinct_fst_sort_key: "distinct (map fst (sort_key k xs)) = distinct (map fst xs)"
  by (simp add: distinct_map)

lemma order_key_canonical: "fst e \<in> set PRAYER_ORDER \<Longrightarrow> order_key e = index PRAYER_ORDER (fst e)"
  by (simp add: order_key_def)

lemma canonical_entries_sorted:
  assumes "distinct (map fst raw)"
  shows "sorted_wrt (\<lambda>a b. index PRAYER_ORDER (fst a) < index PRAYER_ORDER (fst b))
           (filter (\<lambda>e. fst e \<in> set PRAYER_ORDER) (sort_key order_key raw))"
proof (rule sorted_wrt_filter_strict [where k = order_key and f = fst])
  show "sorted (map order_key (sort_key order_key raw))" by (rule sorted_sort_key)
  show "distinct (map fst (sort_key order_key raw))" using assms by (simp add: distinct_fst_sort_key)
next
  fix a b :: "string \<times> string"
  assume a: "fst a \<in> set PRAYER_ORDER" and b: "fst b \<in> set PRAYER_ORDER"
    and le: "order_key a \<le> order_key b" and ne: "fst a \<noteq> fst b"
  from a b ne have "index PRAYER_ORDER (fst a) \<noteq> index PRAYER_ORDER (fst b)"
    using index_inj by metis
  with le a b show "index PRAYER_ORDER (fst a) < index PRAYER_ORDER (fst b)"
    by (simp add: order_key_canonical)
qed

lemma produced_sorted:
  assumes "distinct (map fst raw)"
  shows "sorted_wrt (\<lambda>a b. index PRAYER_ORDER (name a) < index PRAYER_ORDER (name b))
           (produced cfg now (sort_key order_key raw))"
proof -
  let ?es = "sort_key order_key raw"
  let ?ok = "\<lambda>e. \<exists>p. entry_of cfg now e = Inr (Some p)"
  have "sorted_wrt (\<lambda>a b. index PRAYER_ORDER (fst a) < index PRAYER_ORDER (fst b))
          (filter ?ok (filter (\<lambda>e. fst e \<in> set PRAYER_ORDER) ?es))"
    by (rule sorted_wrt_filter) (rule canonical_entries_sorted [OF assms])
  moreover have "filter ?ok (filter (\<lambda>e. fst e \<in> set PRAYER_ORDER) ?es) = filter ?ok ?es"
    unfolding filter_filter by (rule filter_cong) (auto dest: entry_of_Some(2))
  ultimately
  have "sorted_wrt (\<lambda>a b. index PRAYER_ORDER (fst a) < index PRAYER_ORDER (fst b)) (filter ?ok ?es)"
    by simp
  then have "sorted_wrt (\<lambda>x y. index PRAYER_ORDER x < index PRAYER_ORDER y) (map fst (filter ?ok ?es))"
    by (simp add: sorted_wrt_map)
  then have "sorted_wrt (\<lambda>x y. index PRAYER_ORDER x < index PRAYER_ORDER y) (map name (produced cfg now ?es))"
    by (simp add: produced_names)
  then show ?thesis by (simp add: sorted_wrt_map)
qed

lemma fajr_first:
  assumes "sorted_wrt (\<lambda>a b. index PRAYER_ORDER (name a) < index PRAYER_ORDER (name b)) ps"
    and "q \<in> set ps" and "name q = ''Fajr''"
  shows "\<exists>rest. ps = q # rest \<and> (\<forall>x\<in>set rest. name x \<noteq> ''Fajr'')"
proof (cases ps)
  case Nil
  with assms(2) show ?thesis by simp
next
  case (Cons p0 rest)
  have z: "index PRAYER_ORDER ''Fajr'' = 0" by (simp add: PRAYER_ORDER_def)
  from assms(1) Cons have lt: "\<forall>x\<in>set rest. index PRAYER_ORDER (name p0) < index PRAYER_ORDER (name x)"
    by simp
  have "q \<notin> set rest" using lt assms(3) z by force
  with assms(2) Cons have "q = p0" by simp
  moreover have "\<forall>x\<in>set rest. name x \<noteq> ''Fajr''" using lt z by force
  ultimately show ?thesis using Cons by simp
qed

lemma last_fajr_none: "\<forall>x\<in>set ps. name x \<noteq> ''Fajr'' \<Longrightarrow> last_fajr ft ps = ft"
  by (induction ps arbitrary: ft) (simp_all add: last_fajr_def)

lemma produced_names_canonical: "p \<in> set (produced cfg now es) \<Longrightarrow> name p \<in> set PRAYER_ORDER"
  using produced_set entry_of_Some(1,2) by metis

lemma last_fajr_eq_None: "last_fajr ft ps = None \<longleftrightarrow> ft = None \<and> (\<forall>x\<in>set ps. name x \<noteq> ''Fajr'')"
  by (induction ps arbitrary: ft) (auto simp: last_fajr_def)

lemma last_fajr_Cons: "last_fajr ft (p # ps) = last_fajr (if name p = ''Fajr'' then Some (time p) else ft) ps"
  by (simp add: last_fajr_def)

lemma minus_minutes_Inr:
  assumes "minus_minutes d off = Inr d'"
  shows "wall_us d' = wall_us d - off * 60000000" and "tzinfo d' = tzinfo d"
proof -
  define T where "T = hour d * 60 + minute d - off"
  have "T mod 1440 mod 60 = T mod 60" by (rule mod_mod_cancel) simp
  then have a: "(T mod 1440) div 60 * 60 + T mod 60 = T mod 1440"
    using div_mult_mod_eq [of "T mod 1440" 60] by simp
  have b: "T div 1440 * 1440 + T mod 1440 = T" by simp
  from assms have d': "d' = d\<lparr>ordinal := ordinal d + T div 1440, hour := (T mod 1440) div 60, minute := T mod 60\<rparr>"
    by (auto simp: minus_minutes_def Let_def T_def split: if_splits)
  have "((ordinal d + T div 1440) * 24 + (T mod 1440) div 60) * 60 + T mod 60
          = ordinal d * 1440 + (T div 1440 * 1440 + ((T mod 1440) div 60 * 60 + T mod 60))"
    by (simp add: algebra_simps)
  also have "\<dots> = ordinal d * 1440 + T" by (simp only: a b)
  finally have "((ordinal d + T div 1440) * 24 + (T mod 1440) div 60) * 60 + T mod 60 = ordinal d * 1440 + T" .
  then show "wall_us d' = wall_us d - off * 60000000"
    by (simp add: wall_us_def d' T_def algebra_simps)
  show "tzinfo d' = tzinfo d" by (simp add: d')
qed

lemma normalize_times_Inr:
  assumes "normalize_times cfg now raw r = Inr out" and "distinct (map fst raw)"
  shows "(if get (suhoor_enabled cfg) False \<and> (\<not> get (suhoor_ramadan_only cfg) True \<or> r)
             \<and> (\<exists>q\<in>set (produced cfg now (sort_key order_key raw)). name q = ''Fajr'')
          then \<exists>f rest st. produced cfg now (sort_key order_key raw) = f # rest \<and> name f = ''Fajr''
                 \<and> (\<forall>x\<in>set rest. name x \<noteq> ''Fajr'')
                 \<and> minus_minutes (time f) (get (suhoor_offset_minutes cfg) DEFAULT_SUHOOR_OFFSET) = Inr st
                 \<and> out = \<lparr>name = ''Suhoor'', time = st,
                          time_str = format_02d (hour st) @ '':'' @ format_02d (minute st),
                          enabled = True\<rparr> # f # rest
          else out = produced cfg now (sort_key order_key raw))"
proof -
  let ?ps = "produced cfg now (sort_key order_key raw)"
  from assms(1) obtain ps' ft where
    loop: "normalize_loop cfg now (sort_key order_key raw) ([], None) = Inr (ps', ft)"
    by (auto simp: normalize_times_def Let_def split: sum.splits)
  from normalize_loop_Inr [OF loop] have ps': "ps' = ?ps" and ft: "ft = last_fajr None ?ps" by simp_all
  have srt: "sorted_wrt (\<lambda>a b. index PRAYER_ORDER (name a) < index PRAYER_ORDER (name b)) ?ps"
    by (rule produced_sorted [OF assms(2)])
  show ?thesis
  proof (cases "\<exists>q\<in>set ?ps. name q = ''Fajr''")
    case False
    then have "ft = None" by (simp add: ft last_fajr_eq_None)
    with assms(1) loop ps' False show ?thesis
      by (simp add: normalize_times_def Let_def)
  next
    case True
    then obtain q where q: "q \<in> set ?ps" "name q = ''Fajr''" by blast
    from fajr_first [OF srt q] obtain rest where
      rest: "?ps = q # rest" "\<forall>x\<in>set rest. name x \<noteq> ''Fajr''" by blast
    have ftq: "ft = Some (time q)"
      by (simp add: ft rest(1) last_fajr_Cons q(2) last_fajr_none [OF rest(2)])
    have idx: "fajr_idx ?ps = Some 0" by (simp add: rest(1) q(2))
    show ?thesis
    proof (cases "get (suhoor_enabled cfg) False \<and> (\<not> get (suhoor_ramadan_only cfg) True \<or> r)")
      case on: True
      with assms(1) loop ps' ftq idx obtain st where
        st: "minus_minutes (time q) (get (suhoor_offset_minutes cfg) DEFAULT_SUHOOR_OFFSET) = Inr st"
        and out: "out = insert_at 0 \<lparr>name = ''Suhoor'', time = st,
                          time_str = format_02d (hour st) @ '':'' @ format_02d (minute st),
                          enabled = True\<rparr> ?ps"
        by (auto simp: normalize_times_def Let_def get_def split: sum.splits)
      from out have "out = \<lparr>name = ''Suhoor'', time = st,
                          time_str = format_02d (hour st) @ '':'' @ format_02d (minute st),
                          enabled = True\<rparr> # q # rest"
        by (simp add: insert_at_def rest(1))
      with on True rest q st show ?thesis by auto
    next
      case False
      with assms(1) loop ps' ftq have "out = ?ps"
        by (auto simp: normalize_times_def Let_def)
      with False show ?thesis by auto
    qed
  qed
qed

text \<open>
  When normalization returns: every raw item parses or is skipped, and the Suhoor time
  stays within the supported dates.
\<close>

lemma minus_minutes_in_range:
  assumes "2 \<le> ordinal d" and "ordinal d \<le> 3652059" and "0 \<le> hour d" and "hour d < 24"
    and "0 \<le> minute d" and "minute d < 60" and "0 \<le> off" and "off \<le> 1440"
  shows "\<exists>st. minus_minutes d off = Inr st"
proof -
  define T where "T = hour d * 60 + minute d - off"
  from assms have "- 1440 \<le> T" and "T \<le> 1439" by (simp_all add: T_def)
  then have "(- 1440) div 1440 \<le> T div 1440" and "T div 1440 \<le> 1439 div (1440 :: int)"
    by (simp_all add: zdiv_mono1)
  then have "- 1 \<le> T div 1440" and "T div 1440 \<le> 0" by simp_all
  with assms(1,2) show ?thesis by (simp add: minus_minutes_def Let_def T_def)
qed

lemma normalize_times_total:
  assumes "distinct (map fst raw)"
    and "\<forall>e\<in>set raw. \<exists>x. entry_of cfg now e = Inr x"
    and "2 \<le> ordinal now" and "ordinal now \<le> 3652059"
    and "0 \<le> get (suhoor_offset_minutes cfg) DEFAULT_SUHOOR_OFFSET"
    and "get (suhoor_offset_minutes cfg) DEFAULT_SUHOOR_OFFSET \<le> 1440"
  shows "\<exists>out. normalize_times cfg now raw r = Inr out"
proof -
  let ?es = "sort_key order_key raw"
  let ?ps = "produced cfg now ?es"
  from assms(2) have "\<forall>e\<in>set ?es. \<exists>x. entry_of cfg now e = Inr x" by simp
  from normalize_loop_total [OF this]
  have loop: "normalize_loop cfg now ?es ([], None) = Inr (?ps, last_fajr None ?ps)" by simp
  show ?thesis
  proof (cases "last_fajr None ?ps")
    case None
    with loop show ?thesis by (simp add: normalize_times_def)
  next
    case (Some ft)
    then have "\<exists>q\<in>set ?ps. name q = ''Fajr''" using last_fajr_eq_None [of None ?ps] by auto
    then obtain q where q: "q \<in> set ?ps" "name q = ''Fajr''" by blast
    from fajr_first [OF produced_sorted [OF assms(1)] q] obtain rest where
      rest: "?ps = q # rest" "\<forall>x\<in>set rest. name x \<noteq> ''Fajr''" by blast
    have "last_fajr None ?ps = Some (time q)"
      by (simp add: rest(1) last_fajr_Cons q(2) last_fajr_none [OF rest(2)])
    with Some have ft: "ft = time q" by simp
    from produced_set [OF q(1)] obtain e where e: "entry_of cfg now e = Inr (Some q)" by blast
    from entry_of_Some(3,4) [OF e] assms(3,4)
    have "2 \<le> ordinal (time q)" "ordinal (time q) \<le> 3652059" "0 \<le> hour (time q)"
      "hour (time q) < 24" "0 \<le> minute (time q)" "minute (time q) < 60"
      by auto
    from minus_minutes_in_range [OF this assms(5,6)] obtain st where
      "minus_minutes ft (get (suhoor_offset_minutes cfg) DEFAULT_SUHOOR_OFFSET) = Inr st"
      using ft by blast
    with loop Some show ?thesis by (simp add: normalize_times_def Let_def)
  qed
qed

lemma suhoor_not_canonical: "''Suhoor'' \<notin> set PRAYER_ORDER"
  by (simp add: PRAYER_ORDER_def)

lemma produced_not_suhoor: "p \<in> set (produced cfg now es) \<Longrightarrow> name p \<noteq> ''Suhoor''"
  using produced_names_canonical suhoor_not_canonical by metis

lemma produced_sorted_rank:
  assumes "distinct (map fst raw)"
  shows "sorted_wrt (\<lambda>a b. index (''Suhoor'' # PRAYER_ORDER) (name a) < index (''Suhoor'' # PRAYER_ORDER) (name b))
           (produced cfg now (sort_key order_key raw))"
  by (rule sorted_wrt_mono_rel [OF _ produced_sorted [OF assms]])
     (simp add: produced_not_suhoor)

lemma sorted_wrt_rank_distinct:
  "sorted_wrt (\<lambda>a b. index xs (name a) < index xs (name b)) ps \<Longrightarrow> distinct (map name ps)"
  by (induction ps) auto

lemma dt_gt_same_tz: "tzinfo a = tzinfo b \<Longrightarrow> dt_gt a b = Inr (wall_us b < wall_us a)"
  by (cases "tzinfo b") (simp_all add: dt_gt_def)

lemma wall_us_tzinfo: "wall_us (d\<lparr>tzinfo := tz\<rparr>) = wall_us d"
  by (simp add: wall_us_def)

lemma dt_gt_aware:
  assumes "tzinfo now = Some z"
  shows "dt_gt (localize now t) now = Inr (utc_us now < utc_us (localize now t))"
proof (cases "tzinfo t")
  case None
  with assms show ?thesis
    by (simp add: dt_gt_def localize_def replace_tzinfo_def utc_us_def wall_us_tzinfo)
next
  case (Some y)
  with assms show ?thesis
    by (simp add: dt_gt_def localize_def utc_us_def)
qed

lemma dt_sub_aware:
  assumes "tzinfo now = Some z"
  shows "dt_sub (localize now t) now = Inr (utc_us (localize now t) - utc_us now)"
proof (cases "tzinfo t")
  case None
  with assms show ?thesis
    by (simp add: dt_sub_def localize_def replace_tzinfo_def utc_us_def wall_us_tzinfo)
next
  case (Some y)
  with assms show ?thesis
    by (simp add: dt_sub_def localize_def utc_us_def)
qed

lemma next_enabled_find:
  assumes "tzinfo now = Some z"
  shows "next_enabled now ps
           = Inr (find (\<lambda>p. enabled p \<and> utc_us now < utc_us (localize now (time p))) ps)"
  by (induction ps) (simp_all add: dt_gt_aware [OF assms])

lemma next_any_find:
  assumes "tzinfo now = Some z"
  shows "next_any now ps = Inr (find (\<lambda>p. utc_us now < utc_us (localize now (time p))) ps)"
  by (induction ps) (simp_all add: dt_gt_aware [OF assms])

lemma int_of_float_nonpos: "x \<le> 0 \<Longrightarrow> int_of_float x \<le> 0"
  by (auto simp: int_of_float_def)

text \<open>A refresh that raises, for whatever reason, leaves the coordinator object as it was.\<close>

lemma failed_refresh_keeps_coordinator:
  "async_update_data self w = (Inl e, self') \<Longrightarrow> self' = self"
  by (auto simp: async_update_data_def Let_def split: sum.splits prod.splits)

lemma fetch_qatar_moi_http_error: "fetch_qatar_moi (Inl e) = Inl e"
  by (simp add: fetch_qatar_moi_def)

lemma fetch_qatar_moi_no_cells: "fetch_qatar_moi (Inr (headers, [])) = Inl (UpdateFailed None)"
proof -
  have "fold (pair_header []) xs acc = acc" for xs acc
    by (induction xs arbitrary: acc) (auto simp: pair_header_def)
  then show ?thesis by (simp add: fetch_qatar_moi_def)
qed

text \<open>The fetch from the portal fails exactly on an empty table, and returns a dictionary.\<close>

lemma update_not_Nil: "AList.update k v al \<noteq> []"
  by (cases al) auto

lemma pair_header_not_Nil: "acc \<noteq> [] \<Longrightarrow> fold (pair_header cells) xs acc \<noteq> []"
proof (induction xs arbitrary: acc)
  case Nil
  then show ?case by simp
next
  case (Cons x xs)
  have "pair_header cells x acc \<noteq> []"
    using Cons.prems by (cases x) (simp add: pair_header_def update_not_Nil)
  then show ?case using Cons.IH by simp
qed

lemma pair_header_distinct:
  "distinct (map fst acc) \<Longrightarrow> distinct (map fst (fold (pair_header cells) xs acc))"
  by (induction xs arbitrary: acc) (auto simp: pair_header_def distinct_update)

lemma fetch_qatar_moi_distinct:
  assumes "fetch_qatar_moi response = Inr raw"
  shows "distinct (map fst raw)"
proof (cases response)
  case (Inl e)
  with assms show ?thesis by (simp add: fetch_qatar_moi_def)
next
  case (Inr hc)
  obtain headers cells where hc: "hc = (headers, cells)" by (cases hc)
  from assms Inr hc have "raw = fold (pair_header cells) (enumerate 0 headers) []"
    by (simp add: fetch_qatar_moi_def Let_def split: if_splits)
  then show ?thesis using pair_header_distinct [of "[]"] by simp
qed

lemma fetch_qatar_moi_empty_iff:
  "fetch_qatar_moi (Inr (headers, cells)) = Inl (UpdateFailed None) \<longleftrightarrow> headers = [] \<or> cells = []"
proof (cases "headers = [] \<or> cells = []")
  case True
  then show ?thesis
  proof
    assume "headers = []"
    then show ?thesis by (simp add: fetch_qatar_moi_def)
  next
    assume "cells = []"
    then show ?thesis by (simp add: fetch_qatar_moi_no_cells)
  qed
next
  case False
  then obtain h hs where h: "headers = h # hs" and len: "0 < length cells"
    by (cases headers) auto
  have "fold (pair_header cells) (enumerate 0 headers) []
          = fold (pair_header cells) (enumerate 1 hs) [(get (map_of NAME_MAP (lower h)) h, cells ! 0)]"
    using len by (simp add: h pair_header_def)
  then have "fold (pair_header cells) (enumerate 0 headers) [] \<noteq> []"
    by (simp add: pair_header_not_Nil)
  with False show ?thesis by (simp add: fetch_qatar_moi_def Let_def)
qed

lemma example_normalized:
  "normalize_times example_config example_now example_raw True = Inr example_entries"
  by code_simp

lemma example_raw_distinct: "distinct (map fst example_raw)"
  by (simp add: example_raw_def)

lemma example_refresh:
  "async_update_data example_coordinator (example_world d)
     = (Inr (example_snapshot d (if d = ''2026-03-01'' then {''Fajr''} else {})),
        example_coordinator\<lparr>last_date := Some d\<rparr>)"
  by (simp add: async_update_data_def fetch_def example_coordinator_def example_world_def
      example_config_def get_def SOURCE_QATAR_MOI_def ramadan_of_def example_normalized [unfolded example_config_def]
      PrayerData_init_def example_snapshot_def)

lemma example_fetch_fails:
  "fetch \<lparr>config = example_config\<lparr>prayer_source := None\<rparr>, data = d, last_date = l\<rparr>
         (example_world ''2026-03-01'') = Inl (UpdateFailed None)"
  by (simp add: fetch_def get_def example_world_def fetch_qatar_moi_no_cells)

section \<open>The claims\<close>

subsection \<open>C1\<close>

text \<open>
  Claim C1, as the code has it. \<open>_normalize_times\<close> sorts the raw items by the position
  of their name in \<open>PRAYER_ORDER\<close> (lines 217-222), not by time. For every raw
  dictionary (its keys are distinct) and every configuration for which normalization
  returns, the entries are in strictly ascending canonical order Suhoor, Fajr, Sunrise,
  Dhuhr, Asr, Maghrib, Isha; so there is at most one entry per name; and a Suhoor entry
  is immediately followed by the Fajr entry, whose time is strictly later whenever the
  configured offset is positive (the configuration flow only accepts 15 to 120).
\<close>

theorem normalize_times_canonical_order:
  assumes "normalize_times cfg now raw r = Inr out" and "distinct (map fst raw)"
  shows "sorted_wrt (\<lambda>a b. index (''Suhoor'' # PRAYER_ORDER) (name a)
                             < index (''Suhoor'' # PRAYER_ORDER) (name b)) out
         \<and> distinct (map name out)
         \<and> (\<forall>i<length out. name (out ! i) = ''Suhoor'' \<longrightarrow>
               Suc i < length out \<and> name (out ! Suc i) = ''Fajr''
               \<and> (0 < get (suhoor_offset_minutes cfg) DEFAULT_SUHOOR_OFFSET \<longrightarrow>
                    dt_gt (time (out ! Suc i)) (time (out ! i)) = Inr True))"
proof -
  let ?ps = "produced cfg now (sort_key order_key raw)"
  let ?R = "\<lambda>a b. index (''Suhoor'' # PRAYER_ORDER) (name a) < index (''Suhoor'' # PRAYER_ORDER) (name b)"
  let ?off = "get (suhoor_offset_minutes cfg) DEFAULT_SUHOOR_OFFSET"
  have srt: "sorted_wrt ?R ?ps" by (rule produced_sorted_rank [OF assms(2)])
  have nos: "\<forall>p\<in>set ?ps. name p \<noteq> ''Suhoor''" by (simp add: produced_not_suhoor)
  consider (plain) "out = ?ps"
    | (suhoor) f rest st where "?ps = f # rest" "name f = ''Fajr''"
        "minus_minutes (time f) ?off = Inr st"
        "out = \<lparr>name = ''Suhoor'', time = st,
                 time_str = format_02d (hour st) @ '':'' @ format_02d (minute st),
                 enabled = True\<rparr> # f # rest"
    using normalize_times_Inr [OF assms] by (auto split: if_splits)
  then show ?thesis
  proof cases
    case plain
    have "\<forall>i<length out. name (out ! i) \<noteq> ''Suhoor''" using nos plain by simp
    with srt plain show ?thesis by (simp add: sorted_wrt_rank_distinct [OF srt])
  next
    case suhoor
    let ?s = "\<lparr>name = ''Suhoor'', time = st,
                 time_str = format_02d (hour st) @ '':'' @ format_02d (minute st),
                 enabled = True\<rparr>"
    have out: "out = ?s # ?ps" using suhoor by simp
    have first: "\<forall>p\<in>set ?ps. ?R ?s p" using nos by simp
    have s1: "sorted_wrt ?R out" using srt first out by simp
    have s2: "distinct (map name out)" by (rule sorted_wrt_rank_distinct [OF s1])
    have tz: "tzinfo (time f) = tzinfo st"
      using minus_minutes_Inr(2) [OF suhoor(3)] by simp
    have gt: "0 < ?off \<Longrightarrow> dt_gt (time f) st = Inr True"
      using minus_minutes_Inr(1) [OF suhoor(3)] by (simp add: dt_gt_same_tz [OF tz])
    have s3: "Suc i < length out \<and> name (out ! Suc i) = ''Fajr''
               \<and> (0 < ?off \<longrightarrow> dt_gt (time (out ! Suc i)) (time (out ! i)) = Inr True)"
      if "i < length out" "name (out ! i) = ''Suhoor''" for i
    proof (cases i)
      case 0
      then show ?thesis using suhoor gt by simp
    next
      case (Suc j)
      with that out have "j < length ?ps" "name (?ps ! j) = ''Suhoor''" by simp_all
      with nos show ?thesis using nth_mem by blast
    qed
    from s1 s2 s3 show ?thesis by blast
  qed
qed

text \<open>
  The entries are not always ascending by time: with Maghrib at 21:20 and Isha reported
  as 00:15, Isha becomes 12:15 (line 240) and still follows Maghrib.
\<close>

theorem normalize_times_not_time_sorted:
  "normalize_times example_config example_now [(''Maghrib'', ''21:20''), (''Isha'', ''00:15'')] False
     = Inr [\<lparr>name = ''Maghrib'', time = example_time 21 20, time_str = ''21:20'', enabled = True\<rparr>,
            \<lparr>name = ''Isha'', time = example_time 12 15, time_str = ''12:15'', enabled = True\<rparr>]
   \<and> dt_gt (example_time 21 20) (example_time 12 15) = Inr True"
  by code_simp

text \<open>
  An instance: Dhuhr 11:45, Fajr 04:30 and Asr 3:15 in Ramadan, with Suhoor 60 minutes
  before Fajr.
\<close>

theorem normalize_times_canonical_order_witness:
  "normalize_times example_config example_now example_raw True = Inr example_entries
   \<and> distinct (map fst example_raw)
   \<and> sorted_wrt (\<lambda>a b. index (''Suhoor'' # PRAYER_ORDER) (name a)
                             < index (''Suhoor'' # PRAYER_ORDER) (name b)) example_entries
   \<and> distinct (map name example_entries)
   \<and> name (example_entries ! 0) = ''Suhoor''
   \<and> name (example_entries ! Suc 0) = ''Fajr''
   \<and> 0 < get (suhoor_offset_minutes example_config) DEFAULT_SUHOOR_OFFSET
   \<and> dt_gt (time (example_entries ! Suc 0)) (time (example_entries ! 0)) = Inr True"
proof -
  have l: "0 < length example_entries" and s: "name (example_entries ! 0) = ''Suhoor''"
    by (simp_all add: example_entries_def)
  have off: "0 < get (suhoor_offset_minutes example_config) DEFAULT_SUHOOR_OFFSET"
    by (simp add: example_config_def get_def)
  from normalize_times_canonical_order [OF example_normalized example_raw_distinct]
    example_normalized example_raw_distinct l s off
  show ?thesis by blast
qed

subsection \<open>C2\<close>

text \<open>
  Claim C2. A time string with a non-numeric component is not dropped: \<open>int\<close> raises
  \<open>ValueError\<close> at line 237, nothing in \<open>_normalize_times\<close> catches it, and the call of
  line 106 stands outside the \<open>try\<close> statement, so the refresh raises \<open>ValueError\<close> as
  well, for every configuration, clock and Ramadan flag. Only a string with fewer than
  two parts is skipped (line 233).
\<close>

theorem malformed_time_raises:
  "normalize_times cfg now [(''Fajr'', ''4:3a''), (''Dhuhr'', ''12:00'')] r = Inl ValueError
   \<and> async_update_data \<lparr>config = example_config, data = d, last_date = l\<rparr>
        \<lparr>qatar_response = q, hijri_today = hj,
         aladhan_response = Inr ([(''Fajr'', ''4:3a''), (''Dhuhr'', ''12:00'')], (None, None, None)),
         today = t, clock = now\<rparr>
       = (Inl ValueError, \<lparr>config = example_config, data = d, last_date = l\<rparr>)"
proof -
  have n: "normalize_times cfg now [(''Fajr'', ''4:3a''), (''Dhuhr'', ''12:00'')] r = Inl ValueError"
    for cfg r
    by (simp add: normalize_times_def sort_key_def order_key_def PRAYER_ORDER_def entry_of_def
        parse_hm_def strip_def isspace_def first_def py_int_def digit_val_def Let_def)
  show ?thesis
    by (simp add: n async_update_data_def fetch_def example_config_def get_def SOURCE_QATAR_MOI_def)
qed

text \<open>
  An instance, next to the sibling case the loop does skip: a Fajr string without a
  colon is dropped and Dhuhr is kept.
\<close>

theorem malformed_time_raises_witness:
  "normalize_times example_config example_now [(''Fajr'', ''4:3a''), (''Dhuhr'', ''12:00'')] False
     = Inl ValueError
   \<and> normalize_times example_config example_now [(''Fajr'', ''430''), (''Dhuhr'', ''12:00'')] False
     = Inr [\<lparr>name = ''Dhuhr'', time = example_time 12 0, time_str = ''12:00'', enabled = True\<rparr>]"
proof -
  have "normalize_times example_config example_now [(''Fajr'', ''430''), (''Dhuhr'', ''12:00'')] False
     = Inr [\<lparr>name = ''Dhuhr'', time = example_time 12 0, time_str = ''12:00'', enabled = True\<rparr>]"
    by code_simp
  with malformed_time_raises [of example_config example_now False] show ?thesis by blast
qed

subsection \<open>C3\<close>

text \<open>
  Claim C3. Whenever normalization of a raw dictionary returns: if Suhoor is enabled, the
  Ramadan condition holds and the entries hold a Fajr entry, then a Suhoor entry with
  \<open>enabled = True\<close> stands immediately before the Fajr entry, and its time is the Fajr
  time minus the configured offset in minutes. With no Fajr entry there is no Suhoor
  entry; and with Suhoor disabled or the Ramadan condition failing there is none either.
\<close>

theorem suhoor_injection:
  assumes "normalize_times cfg now raw r = Inr out" and "distinct (map fst raw)"
  shows "(get (suhoor_enabled cfg) False \<and> (\<not> get (suhoor_ramadan_only cfg) True \<or> r)
            \<and> (\<exists>f\<in>set out. name f = ''Fajr'') \<longrightarrow>
          (\<exists>i. Suc i < length out \<and> name (out ! i) = ''Suhoor'' \<and> enabled (out ! i)
               \<and> name (out ! Suc i) = ''Fajr''
               \<and> minus_minutes (time (out ! Suc i)) (get (suhoor_offset_minutes cfg) DEFAULT_SUHOOR_OFFSET)
                   = Inr (time (out ! i))
               \<and> wall_us (time (out ! i))
                   = wall_us (time (out ! Suc i)) - get (suhoor_offset_minutes cfg) DEFAULT_SUHOOR_OFFSET * 60000000))
         \<and> ((\<forall>f\<in>set out. name f \<noteq> ''Fajr'') \<longrightarrow> (\<forall>s\<in>set out. name s \<noteq> ''Suhoor''))
         \<and> (\<not> (get (suhoor_enabled cfg) False \<and> (\<not> get (suhoor_ramadan_only cfg) True \<or> r)) \<longrightarrow>
              (\<forall>s\<in>set out. name s \<noteq> ''Suhoor''))"
proof -
  let ?ps = "produced cfg now (sort_key order_key raw)"
  let ?off = "get (suhoor_offset_minutes cfg) DEFAULT_SUHOOR_OFFSET"
  let ?cond = "get (suhoor_enabled cfg) False \<and> (\<not> get (suhoor_ramadan_only cfg) True \<or> r)"
  have nos: "\<forall>p\<in>set ?ps. name p \<noteq> ''Suhoor''" by (simp add: produced_not_suhoor)
  show ?thesis
  proof (cases "?cond \<and> (\<exists>q\<in>set ?ps. name q = ''Fajr'')")
    case True
    with normalize_times_Inr [OF assms] obtain f rest st where
      *: "?ps = f # rest" "name f = ''Fajr''" "minus_minutes (time f) ?off = Inr st"
         "out = \<lparr>name = ''Suhoor'', time = st,
                 time_str = format_02d (hour st) @ '':'' @ format_02d (minute st),
                 enabled = True\<rparr> # f # rest"
      by auto
    have "Suc 0 < length out \<and> name (out ! 0) = ''Suhoor'' \<and> enabled (out ! 0)
            \<and> name (out ! Suc 0) = ''Fajr''
            \<and> minus_minutes (time (out ! Suc 0)) ?off = Inr (time (out ! 0))
            \<and> wall_us (time (out ! 0)) = wall_us (time (out ! Suc 0)) - ?off * 60000000"
      using * minus_minutes_Inr(1) [OF *(3)] by simp
    then have "\<exists>i. Suc i < length out \<and> name (out ! i) = ''Suhoor'' \<and> enabled (out ! i)
               \<and> name (out ! Suc i) = ''Fajr''
               \<and> minus_minutes (time (out ! Suc i)) ?off = Inr (time (out ! i))
               \<and> wall_us (time (out ! i)) = wall_us (time (out ! Suc i)) - ?off * 60000000"
      by (rule exI)
    moreover have "\<exists>f\<in>set out. name f = ''Fajr''" using * by simp
    ultimately show ?thesis using True by blast
  next
    case False
    with normalize_times_Inr [OF assms] have out: "out = ?ps" by (simp split: if_splits)
    with False nos show ?thesis by auto
  qed
qed

text \<open>The instance of the example: Suhoor at 03:30 before Fajr at 04:30.\<close>

theorem suhoor_injection_witness:
  "normalize_times example_config example_now example_raw True = Inr example_entries
   \<and> distinct (map fst example_raw)
   \<and> get (suhoor_enabled example_config) False
   \<and> (\<exists>f\<in>set example_entries. name f = ''Fajr'')
   \<and> (\<exists>i. Suc i < length example_entries \<and> name (example_entries ! i) = ''Suhoor''
          \<and> enabled (example_entries ! i) \<and> name (example_entries ! Suc i) = ''Fajr''
          \<and> minus_minutes (time (example_entries ! Suc i))
               (get (suhoor_offset_minutes example_config) DEFAULT_SUHOOR_OFFSET)
             = Inr (time (example_entries ! i))
          \<and> wall_us (time (example_entries ! i))
             = wall_us (time (example_entries ! Suc i))
               - get (suhoor_offset_minutes example_config) DEFAULT_SUHOOR_OFFSET * 60000000)"
proof -
  have g: "get (suhoor_enabled example_config) False" by (simp add: example_config_def get_def)
  have f: "\<exists>f\<in>set example_entries. name f = ''Fajr''" by (simp add: example_entries_def)
  from suhoor_injection [OF example_normalized example_raw_distinct] g f
    example_normalized example_raw_distinct
  show ?thesis by blast
qed

subsection \<open>C4\<close>

text \<open>
  Claim C4. Every refresh that returns a snapshot gives it today's date. If the previous
  snapshot has the same date, \<open>played_today\<close> is the previous set; with no previous
  snapshot, or one of another date, it is empty.
\<close>

theorem played_today_reconciliation:
  assumes "async_update_data self w = (Inr new, self')"
  shows "date new = today w
         \<and> (\<forall>old. data self = Some old \<and> date old = date new \<longrightarrow> played_today new = played_today old)
         \<and> (data self = None \<or> (\<exists>old. data self = Some old \<and> date old \<noteq> date new)
              \<longrightarrow> played_today new = {})"
  using assms
  by (auto simp: async_update_data_def PrayerData_init_def Let_def
           split: sum.splits prod.splits option.splits if_splits)

text \<open>
  Two refreshes from the same coordinator: on the date of its snapshot the played set
  is kept, on the next day it is empty.
\<close>

theorem played_today_reconciliation_witness:
  "async_update_data example_coordinator (example_world ''2026-03-01'')
     = (Inr (example_snapshot ''2026-03-01'' {''Fajr''}),
        example_coordinator\<lparr>last_date := Some ''2026-03-01''\<rparr>)
   \<and> data example_coordinator = Some (example_snapshot ''2026-03-01'' {''Fajr''})
   \<and> date (example_snapshot ''2026-03-01'' {''Fajr''}) = today (example_world ''2026-03-01'')
   \<and> played_today (example_snapshot ''2026-03-01'' {''Fajr''}) = {''Fajr''}
   \<and> async_update_data example_coordinator (example_world ''2026-03-02'')
     = (Inr (example_snapshot ''2026-03-02'' {}),
        example_coordinator\<lparr>last_date := Some ''2026-03-02''\<rparr>)
   \<and> date (example_snapshot ''2026-03-01'' {''Fajr''}) \<noteq> date (example_snapshot ''2026-03-02'' {})
   \<and> played_today (example_snapshot ''2026-03-02'' {}) = {}"
proof -
  have a: "async_update_data example_coordinator (example_world ''2026-03-01'')
     = (Inr (example_snapshot ''2026-03-01'' {''Fajr''}),
        example_coordinator\<lparr>last_date := Some ''2026-03-01''\<rparr>)"
    using example_refresh [of "''2026-03-01''"] by simp
  have b: "async_update_data example_coordinator (example_world ''2026-03-02'')
     = (Inr (example_snapshot ''2026-03-02'' {}),
        example_coordinator\<lparr>last_date := Some ''2026-03-02''\<rparr>)"
    using example_refresh [of "''2026-03-02''"] by simp
  have c: "data example_coordinator = Some (example_snapshot ''2026-03-01'' {''Fajr''})"
    by (simp add: example_coordinator_def)
  have d: "date (example_snapshot ''2026-03-01'' {''Fajr''}) \<noteq> date (example_snapshot ''2026-03-02'' {})"
    by (simp add: example_snapshot_def)
  from played_today_reconciliation [OF a] played_today_reconciliation [OF b] a b c d
  show ?thesis by (simp add: example_snapshot_def)
qed

subsection \<open>C5\<close>

text \<open>
  Claim C5. When the fetch raises, whatever the exception, \<open>_async_update_data\<close> raises
  \<open>UpdateFailed\<close> (the update framework's signal for a failed refresh) with that
  exception as its cause, and leaves the coordinator object, hence the stored snapshot
  with its entries, date, played set and Hijri values, as it was.
\<close>

theorem fetch_failure_retains_snapshot:
  assumes "fetch self w = Inl err"
  shows "async_update_data self w = (Inl (UpdateFailed (Some err)), self)"
  using assms by (simp add: async_update_data_def)

text \<open>An instance: the portal's table has headers but no cells.\<close>

theorem fetch_failure_retains_snapshot_witness:
  "fetch \<lparr>config = example_config\<lparr>prayer_source := None\<rparr>,
          data = Some (example_snapshot ''2026-03-01'' {''Fajr''}), last_date = Some ''2026-03-01''\<rparr>
         (example_world ''2026-03-01'') = Inl (UpdateFailed None)
   \<and> async_update_data
         \<lparr>config = example_config\<lparr>prayer_source := None\<rparr>,
          data = Some (example_snapshot ''2026-03-01'' {''Fajr''}), last_date = Some ''2026-03-01''\<rparr>
         (example_world ''2026-03-01'')
       = (Inl (UpdateFailed (Some (UpdateFailed None))),
          \<lparr>config = example_config\<lparr>prayer_source := None\<rparr>,
           data = Some (example_snapshot ''2026-03-01'' {''Fajr''}), last_date = Some ''2026-03-01''\<rparr>)"
  using fetch_failure_retains_snapshot [OF example_fetch_fails] example_fetch_fails
  by blast

subsection \<open>C6\<close>

text \<open>
  Claim C6. For a snapshot and an aware \<open>now\<close>, \<open>NextPrayerSensor._get_next_prayer\<close>
  returns the first entry of the list that is enabled and strictly after \<open>now\<close>, or
  none; \<open>AzanCountdownSensor._get_next_prayer\<close> the first entry strictly after \<open>now\<close>,
  or none. A naive entry time is given the time zone of \<open>now\<close>, so that it is compared
  with \<open>now\<close> on the wall clock.
\<close>

theorem next_prayer_resolution:
  assumes "tzinfo now \<noteq> None"
  shows "NextPrayerSensor_get_next_prayer (Some d) now
           = Inr (find (\<lambda>p. enabled p \<and> utc_us now < utc_us (localize now (time p))) (prayers d))
         \<and> AzanCountdownSensor_get_next_prayer (Some d) now
           = Inr (find (\<lambda>p. utc_us now < utc_us (localize now (time p))) (prayers d))
         \<and> (\<forall>t. tzinfo t = None \<longrightarrow>
               localize now t = t\<lparr>tzinfo := tzinfo now\<rparr>
               \<and> (utc_us now < utc_us (localize now t)) = (wall_us now < wall_us t))"
proof -
  from assms obtain z where z: "tzinfo now = Some z" by auto
  have "(utc_us now < utc_us (localize now t)) = (wall_us now < wall_us t)" if "tzinfo t = None" for t
    using that z by (simp add: localize_def replace_tzinfo_def utc_us_def wall_us_tzinfo)
  then show ?thesis
    by (simp add: NextPrayerSensor_get_next_prayer_def AzanCountdownSensor_get_next_prayer_def
        next_enabled_find [OF z] next_any_find [OF z] localize_def replace_tzinfo_def)
qed

text \<open>
  The instance of the specification: entries at 05:00 (disabled), 12:00 and 15:30; at
  13:00 both queries give the 15:30 entry, at 16:00 both give none.
\<close>

theorem next_prayer_resolution_witness:
  "tzinfo (example_instant 13 0 0) \<noteq> None
   \<and> NextPrayerSensor_get_next_prayer (Some example_schedule) (example_instant 13 0 0)
       = Inr (Some \<lparr>name = ''Asr'', time = example_time 15 30, time_str = ''15:30'', enabled = True\<rparr>)
   \<and> AzanCountdownSensor_get_next_prayer (Some example_schedule) (example_instant 13 0 0)
       = Inr (Some \<lparr>name = ''Asr'', time = example_time 15 30, time_str = ''15:30'', enabled = True\<rparr>)
   \<and> tzinfo (example_instant 16 0 0) \<noteq> None
   \<and> NextPrayerSensor_get_next_prayer (Some example_schedule) (example_instant 16 0 0) = Inr None
   \<and> AzanCountdownSensor_get_next_prayer (Some example_schedule) (example_instant 16 0 0) = Inr None"
proof -
  have a: "tzinfo (example_instant 13 0 0) \<noteq> None" and b: "tzinfo (example_instant 16 0 0) \<noteq> None"
    by (simp_all add: example_instant_def)
  from next_prayer_resolution [OF a, of example_schedule]
       next_prayer_resolution [OF b, of example_schedule] a b
  show ?thesis
    by (simp add: example_schedule_def example_instant_def example_time_def localize_def
        replace_tzinfo_def utc_us_def wall_us_def)
qed

subsection \<open>C7\<close>

text \<open>
  Claim C7. Every entry of a normalized list other than Suhoor comes from the raw time
  string of its name, parsed to an hour \<open>h\<close> and a minute: for Asr, Maghrib and Isha
  with \<open>h < 10\<close> the entry's hour is \<open>h + 12\<close>; for Fajr, Sunrise and Dhuhr it is \<open>h\<close>.
\<close>

theorem hour_disambiguation:
  assumes "normalize_times cfg now raw r = Inr out" and "distinct (map fst raw)"
    and "p \<in> set out" and "name p \<noteq> ''Suhoor''"
  shows "\<exists>s h m. map_of raw (name p) = Some s \<and> parse_hm s = Inr (Some (h, m))
           \<and> minute (time p) = m
           \<and> (name p \<in> {''Asr'', ''Maghrib'', ''Isha''} \<and> h < 10 \<longrightarrow> hour (time p) = h + 12)
           \<and> (name p \<in> {''Fajr'', ''Sunrise'', ''Dhuhr''} \<longrightarrow> hour (time p) = h)"
proof -
  let ?ps = "produced cfg now (sort_key order_key raw)"
  from normalize_times_Inr [OF assms(1,2)] assms(3,4) have "p \<in> set ?ps"
    by (auto split: if_splits)
  from produced_set [OF this] obtain e where e: "e \<in> set raw" "entry_of cfg now e = Inr (Some p)"
    by auto
  from entry_of_Some(3) [OF e(2)] obtain h m where
    hm: "parse_hm (snd e) = Inr (Some (h, m))" "hour (time p) = adjust_hour (fst e) h" "minute (time p) = m"
    by blast
  have n: "name p = fst e" by (rule entry_of_Some(1) [OF e(2)])
  have "map_of raw (fst e) = Some (snd e)" using assms(2) e(1) by (simp add: map_of_eq_Some_iff)
  with hm n show ?thesis by (auto simp: adjust_hour_def)
qed

text \<open>The instance of the example: Asr reported as 3:15 is stored as 15:15.\<close>

theorem hour_disambiguation_witness:
  "normalize_times example_config example_now example_raw True = Inr example_entries
   \<and> distinct (map fst example_raw)
   \<and> \<lparr>name = ''Asr'', time = example_time 15 15, time_str = ''15:15'', enabled = True\<rparr> \<in> set example_entries
   \<and> (\<exists>h m. map_of example_raw ''Asr'' = Some ''3:15'' \<and> parse_hm ''3:15'' = Inr (Some (h, m))
          \<and> h < 10 \<and> hour (example_time 15 15) = h + 12 \<and> minute (example_time 15 15) = m)"
proof -
  let ?p = "\<lparr>name = ''Asr'', time = example_time 15 15, time_str = ''15:15'', enabled = True\<rparr>"
  have m: "?p \<in> set example_entries" by (simp add: example_entries_def)
  have n: "name ?p \<noteq> ''Suhoor''" by simp
  have r: "map_of example_raw ''Asr'' = Some ''3:15''" by (simp add: example_raw_def)
  have ph: "parse_hm ''3:15'' = Inr (Some (3, 15))" by code_simp
  from hour_disambiguation [OF example_normalized example_raw_distinct m n]
  obtain s h mi where *: "map_of example_raw (name ?p) = Some s" "parse_hm s = Inr (Some (h, mi))"
    "minute (time ?p) = mi"
    "name ?p \<in> {''Asr'', ''Maghrib'', ''Isha''} \<and> h < 10 \<longrightarrow> hour (time ?p) = h + 12"
    by blast
  from *(1) r have s: "s = ''3:15''" by simp
  with *(2) ph have h: "h = 3" "mi = 15" by simp_all
  with * s have "hour (time ?p) = h + 12" by simp
  with * s h r ph m example_normalized example_raw_distinct show ?thesis by auto
qed

subsection \<open>C8\<close>

text \<open>
  Claim C8. For every entry and every aware \<open>now\<close>, the minutes of the countdown and
  its hours, minutes and seconds are defined and not negative, whatever the rounding of
  the float divisions. When the entry's time is not after \<open>now\<close> they are all zero,
  given that rounding maps no value below or at zero to a positive one. These are the
  values that \<open>AzanCountdownSensor.native_value\<close> and \<open>extra_state_attributes\<close> and
  the \<open>countdown_minutes\<close> attribute of \<open>NextPrayerSensor\<close> report for the entry they
  chose at an earlier reading \<open>now1\<close> of the clock.
\<close>

theorem countdown_never_negative:
  assumes "tzinfo now \<noteq> None"
  shows "\<exists>m h mi s. minutes_until fl p now = Inr m \<and> countdown_breakdown fl p now = Inr (h, mi, s)
           \<and> 0 \<le> m \<and> 0 \<le> h \<and> 0 \<le> mi \<and> 0 \<le> s
           \<and> ((\<forall>x. x \<le> 0 \<longrightarrow> fl x \<le> 0) \<and> utc_us (localize now (time p)) \<le> utc_us now
                 \<longrightarrow> m = 0 \<and> h = 0 \<and> mi = 0 \<and> s = 0)
           \<and> (AzanCountdownSensor_get_next_prayer d now1 = Inr (Some p) \<longrightarrow>
                 AzanCountdownSensor_native_value fl d now1 now = Inr (Some m)
                 \<and> AzanCountdownSensor_extra_state_attributes fl d now1 now
                     = Inr [(''prayer_name'', AStr (name p)), (''time'', AStr (time_str p)),
                            (''hours'', AInt h), (''minutes'', AInt mi), (''seconds'', AInt s),
                            (''datetime'', AIsoformat (time p))])
           \<and> (NextPrayerSensor_get_next_prayer d now1 = Inr (Some p) \<longrightarrow>
                 NextPrayerSensor_extra_state_attributes fl d now1 now
                   = Inr [(''time'', AStr (time_str p)), (''countdown_minutes'', AInt m),
                          (''datetime'', AIsoformat (time p))])"
proof -
  from assms obtain z where z: "tzinfo now = Some z" by auto
  define diff where "diff = utc_us (localize now (time p)) - utc_us now"
  define m where "m = max 0 (int_of_float (fl (total_seconds fl diff / 60)))"
  define total where "total = max 0 (int_of_float (total_seconds fl diff))"
  have sub: "dt_sub (localize now (time p)) now = Inr diff"
    by (simp add: dt_sub_aware [OF z] diff_def)
  have 1: "minutes_until fl p now = Inr m" by (simp add: minutes_until_def sub m_def)
  have 2: "countdown_breakdown fl p now = Inr (total div 3600, (total mod 3600) div 60, total mod 60)"
    by (simp add: countdown_breakdown_def sub total_def Let_def)
  have 3: "0 \<le> m" by (simp add: m_def)
  have t0: "0 \<le> total" by (simp add: total_def)
  have 4: "0 \<le> total div 3600" using t0 by (simp add: pos_imp_zdiv_nonneg_iff)
  have 5: "0 \<le> (total mod 3600) div 60" by (simp add: pos_imp_zdiv_nonneg_iff)
  have 6: "0 \<le> total mod 60" by simp
  have 7: "m = 0 \<and> total = 0" if fl: "\<forall>x. x \<le> 0 \<longrightarrow> fl x \<le> 0" and le: "diff \<le> 0"
  proof -
    from le have "real_of_int diff / 1000000 \<le> 0" by simp
    with fl have ts: "total_seconds fl diff \<le> 0" by (simp add: total_seconds_def)
    then have "total_seconds fl diff / 60 \<le> 0" by simp
    with fl have "fl (total_seconds fl diff / 60) \<le> 0" by simp
    then have "int_of_float (fl (total_seconds fl diff / 60)) \<le> 0" by (rule int_of_float_nonpos)
    moreover from ts have "int_of_float (total_seconds fl diff) \<le> 0" by (rule int_of_float_nonpos)
    ultimately show ?thesis by (simp add: m_def total_def)
  qed
  have 8: "(\<forall>x. x \<le> 0 \<longrightarrow> fl x \<le> 0) \<and> utc_us (localize now (time p)) \<le> utc_us now
             \<longrightarrow> m = 0 \<and> total div 3600 = 0 \<and> (total mod 3600) div 60 = 0 \<and> total mod 60 = 0"
    using 7 by (simp add: diff_def)
  have 9: "AzanCountdownSensor_get_next_prayer d now1 = Inr (Some p) \<longrightarrow>
             AzanCountdownSensor_native_value fl d now1 now = Inr (Some m)
             \<and> AzanCountdownSensor_extra_state_attributes fl d now1 now
                 = Inr [(''prayer_name'', AStr (name p)), (''time'', AStr (time_str p)),
                        (''hours'', AInt (total div 3600)), (''minutes'', AInt ((total mod 3600) div 60)),
                        (''seconds'', AInt (total mod 60)), (''datetime'', AIsoformat (time p))]"
    by (simp add: AzanCountdownSensor_native_value_def AzanCountdownSensor_extra_state_attributes_def 1 2)
  have 10: "NextPrayerSensor_get_next_prayer d now1 = Inr (Some p) \<longrightarrow>
              NextPrayerSensor_extra_state_attributes fl d now1 now
                = Inr [(''time'', AStr (time_str p)), (''countdown_minutes'', AInt m),
                       (''datetime'', AIsoformat (time p))]"
    by (simp add: NextPrayerSensor_extra_state_attributes_def 1)
  show ?thesis
    by (rule exI [of _ m], rule exI [of _ "total div 3600"],
        rule exI [of _ "(total mod 3600) div 60"], rule exI [of _ "total mod 60"])
       (use 1 2 3 4 5 6 8 9 10 in blast)
qed

text \<open>
  An instance: Dhuhr at 12:00:00 is chosen at 11:59:58 and the countdown is computed at
  12:00:05.
\<close>

theorem countdown_never_negative_witness:
  "tzinfo (example_instant 12 0 5) \<noteq> None
   \<and> AzanCountdownSensor_get_next_prayer (Some example_schedule) (example_instant 11 59 58)
       = Inr (Some \<lparr>name = ''Dhuhr'', time = example_time 12 0, time_str = ''12:00'', enabled = True\<rparr>)
   \<and> utc_us (localize (example_instant 12 0 5) (example_time 12 0)) \<le> utc_us (example_instant 12 0 5)
   \<and> minutes_until (\<lambda>y. y)
        \<lparr>name = ''Dhuhr'', time = example_time 12 0, time_str = ''12:00'', enabled = True\<rparr>
        (example_instant 12 0 5) = Inr 0
   \<and> countdown_breakdown (\<lambda>y. y)
        \<lparr>name = ''Dhuhr'', time = example_time 12 0, time_str = ''12:00'', enabled = True\<rparr>
        (example_instant 12 0 5) = Inr (0, 0, 0)
   \<and> AzanCountdownSensor_native_value (\<lambda>y. y) (Some example_schedule)
        (example_instant 11 59 58) (example_instant 12 0 5) = Inr (Some 0)"
proof -
  let ?p = "\<lparr>name = ''Dhuhr'', time = example_time 12 0, time_str = ''12:00'', enabled = True\<rparr>"
  let ?now = "example_instant 12 0 5"
  let ?now1 = "example_instant 11 59 58"
  have a: "tzinfo ?now \<noteq> None" by (simp add: example_instant_def)
  have b: "\<forall>x::real. x \<le> 0 \<longrightarrow> (\<lambda>y. y) x \<le> 0" by simp
  have c: "utc_us (localize ?now (time ?p)) \<le> utc_us ?now"
    by (simp add: example_instant_def example_time_def localize_def replace_tzinfo_def
        utc_us_def wall_us_def)
  have g: "AzanCountdownSensor_get_next_prayer (Some example_schedule) ?now1 = Inr (Some ?p)"
    by (simp add: AzanCountdownSensor_get_next_prayer_def example_schedule_def example_instant_def
        example_time_def localize_def replace_tzinfo_def dt_gt_def wall_us_def)
  from countdown_never_negative [OF a, of "\<lambda>y. y" ?p "Some example_schedule" ?now1]
  obtain m h mi s where
    *: "minutes_until (\<lambda>y. y) ?p ?now = Inr m" "countdown_breakdown (\<lambda>y. y) ?p ?now = Inr (h, mi, s)"
       "(\<forall>x::real. x \<le> 0 \<longrightarrow> (\<lambda>y. y) x \<le> 0) \<and> utc_us (localize ?now (time ?p)) \<le> utc_us ?now
          \<longrightarrow> m = 0 \<and> h = 0 \<and> mi = 0 \<and> s = 0"
       "AzanCountdownSensor_get_next_prayer (Some example_schedule) ?now1 = Inr (Some ?p) \<longrightarrow>
          AzanCountdownSensor_native_value (\<lambda>y. y) (Some example_schedule) ?now1 ?now = Inr (Some m)"
    by blast
  from *(3) b c have "m = 0 \<and> h = 0 \<and> mi = 0 \<and> s = 0" by blast
  with * a b c g show ?thesis by simp
qed

subsection \<open>C9\<close>

text \<open>
  Claim C9. The status is \<open>downloading\<close> when \<open>is_downloading\<close> is true, whatever
  \<open>is_playing\<close> is; otherwise \<open>playing\<close> when \<open>is_playing\<close> is true; otherwise
  \<open>idle\<close>.
\<close>

theorem status_precedence:
  "AzanStatusSensor_native_value (Some \<lparr>is_downloading = Some True, is_playing = Some playing\<rparr>) = ''downloading''
   \<and> AzanStatusSensor_native_value (Some \<lparr>is_downloading = Some False, is_playing = Some True\<rparr>) = ''playing''
   \<and> AzanStatusSensor_native_value (Some \<lparr>is_downloading = Some False, is_playing = Some False\<rparr>) = ''idle''"
  by (simp add: AzanStatusSensor_native_value_def get_def)

subsection \<open>C10\<close>

text \<open>
  Claim C10. With no snapshot stored, the prayer-time sensor has no value and no
  attributes, the next-prayer and countdown queries and values are none, and the Ramadan
  sensor reports \<open>Unknown\<close>.
\<close>

theorem no_snapshot_degrades:
  "PrayerTimeSensor_get_prayer None prayer_name = None
   \<and> PrayerTimeSensor_native_value None prayer_name = None
   \<and> PrayerTimeSensor_extra_state_attributes None prayer_name = []
   \<and> NextPrayerSensor_get_next_prayer None now = Inr None
   \<and> NextPrayerSensor_native_value None now = Inr None
   \<and> AzanCountdownSensor_get_next_prayer None now = Inr None
   \<and> AzanCountdownSensor_native_value fl None now now' = Inr None
   \<and> RamadanSensor_native_value None = ''Unknown''"
  by (simp add: PrayerTimeSensor_get_prayer_def PrayerTimeSensor_native_value_def
      PrayerTimeSensor_extra_state_attributes_def NextPrayerSensor_get_next_prayer_def
      NextPrayerSensor_native_value_def AzanCountdownSensor_get_next_prayer_def
      AzanCountdownSensor_native_value_def RamadanSensor_native_value_def)

end
